theory Spec2Isabelle
  imports Main "HOL-Library.Word"
begin

section \<open>Python effects: exceptions, logging, try/except\<close>

text \<open>
  The Python exception classes that the modelled code raises or catches. \<open>UserError\<close>
  stands for any exception raised by code outside the modelled modules (a handler
  method, a listener, a queue).
\<close>

datatype exn =
    NameError string
  | AttributeError string
  | IOError string int nat
  | SocketError string
  | NotImplementedError
  | NotifierValueError string
  | KeyError
  | UserError string

datatype level = TRACE | DEBUG | INFO | WARNING | EXCEPTION

type_synonym log_entry = "level \<times> string"

text \<open>
  A statement run on a state \<open>'s\<close> yields the state it leaves behind and, when it
  raised, the exception: mutations made before a raise persist, as in Python.
\<close>

type_synonym 's stmt = "'s \<Rightarrow> exn option \<times> 's"

definition try_except :: "'s stmt \<Rightarrow> (exn \<Rightarrow> 's stmt) \<Rightarrow> 's stmt" where
  "try_except body handler s =
     (case body s of
        (None, s') \<Rightarrow> (None, s')
      | (Some e, s') \<Rightarrow> handler e s')"

definition seq :: "'s stmt \<Rightarrow> 's stmt \<Rightarrow> 's stmt" where
  "seq a b s =
     (case a s of
        (None, s') \<Rightarrow> b s'
      | (Some e, s') \<Rightarrow> (Some e, s'))"

fun for_each :: "'a list \<Rightarrow> ('a \<Rightarrow> 's stmt) \<Rightarrow> 's stmt" where
  "for_each [] body s = (None, s)"
| "for_each (x # xs) body s =
     (case body x s of
        (None, s') \<Rightarrow> for_each xs body s'
      | (Some e, s') \<Rightarrow> (Some e, s'))"

section \<open>stack/multicastSocket.py\<close>

datatype sockopt =
    SO_REUSEADDR | SO_REUSEPORT | IP_MULTICAST_TTL | IP_MULTICAST_LOOP

text \<open>
  The operating system under the socket: which \<open>setsockopt\<close> and \<open>bind\<close> calls it
  accepts, and what \<open>sendto\<close> reports (a byte count, or an exception).
\<close>

record os =
  setsockopt_ok :: "sockopt \<Rightarrow> int \<Rightarrow> bool"
  bind_ok :: "string \<times> nat \<Rightarrow> bool"
  sendto :: "8 word list \<Rightarrow> string \<times> nat \<Rightarrow> exn + int"

record sock =
  localAddr :: string
  localPort :: nat
  ttl :: int
  loop :: int
  mcastAddr :: string
  mcastPort :: nat
  sockopts :: "(sockopt \<times> int) list"
  bound :: "(string \<times> nat) option"
  sock_log :: "log_entry list"

definition setsockopt :: "os \<Rightarrow> sockopt \<Rightarrow> int \<Rightarrow> sock stmt" where
  "setsockopt sys opt v s =
     (if setsockopt_ok sys opt v
      then (None, s\<lparr>sockopts := sockopts s @ [(opt, v)]\<rparr>)
      else (Some (SocketError ''setsockopt''), s))"

definition bind :: "os \<Rightarrow> string \<times> nat \<Rightarrow> sock stmt" where
  "bind sys addr s =
     (if bind_ok sys addr
      then (None, s\<lparr>bound := Some addr\<rparr>)
      else (Some (SocketError ''bind''), s))"

definition sock_logger_exception :: "string \<Rightarrow> sock stmt" where
  "sock_logger_exception msg s = (None, s\<lparr>sock_log := sock_log s @ [(EXCEPTION, msg)]\<rparr>)"

text \<open>
  \<open>MulticastSocketBase.__init__(self, localAddr, localPort, ttl=32, loop=1)\<close>. An
  argument that the caller leaves out is \<open>None\<close> here and takes the default of the
  signature. \<open>_bind\<close> is the method of the subclass; the base class's own raises
  \<open>NotImplementedError\<close>.
\<close>

definition MulticastSocketBase_bind :: "os \<Rightarrow> sock stmt" where
  "MulticastSocketBase_bind sys s = (Some NotImplementedError, s)"

definition MulticastSocketBase_init ::
  "os \<Rightarrow> (os \<Rightarrow> sock stmt) \<Rightarrow> string \<Rightarrow> nat \<Rightarrow> int option \<Rightarrow> int option \<Rightarrow> sock stmt" where
  "MulticastSocketBase_init sys bind_method localAddr' localPort' ttl_arg loop_arg s =
     (let ttl' = (case ttl_arg of None \<Rightarrow> 32 | Some t \<Rightarrow> t);
          loop' = (case loop_arg of None \<Rightarrow> 1 | Some l \<Rightarrow> l);
          s1 = s\<lparr>localAddr := localAddr', localPort := localPort', ttl := ttl', loop := loop'\<rparr>
      in seq (setsockopt sys SO_REUSEADDR 1)
        (seq (try_except (setsockopt sys SO_REUSEPORT 1)
               (\<lambda>e. sock_logger_exception
                  (''MulticastSocketBase.__init__(): system doesn'' @ CHR 0x27 #
                   ''t support SO_REUSEPORT'')))
        (seq (setsockopt sys IP_MULTICAST_TTL ttl')
        (seq (setsockopt sys IP_MULTICAST_LOOP loop')
             (bind_method sys)))) s1)"

text \<open>A socket object before \<open>__init__\<close> has run on it.\<close>

definition new_sock :: sock where
  "new_sock = \<lparr>localAddr = [], localPort = 0, ttl = 0, loop = 0, mcastAddr = [],
     mcastPort = 0, sockopts = [], bound = None, sock_log = []\<rparr>"

definition MulticastSocketTransmit_bind :: "os \<Rightarrow> sock stmt" where
  "MulticastSocketTransmit_bind sys s = bind sys (localAddr s, localPort s) s"

text \<open>
  \<open>MulticastSocketTransmit.__init__(self, localAddr, localPort, mcastAddr, mcastPort,
  ttl=32, loop=1)\<close>: the defaults of this signature are passed on to the base class.
\<close>

definition MulticastSocketTransmit_init ::
  "os \<Rightarrow> string \<Rightarrow> nat \<Rightarrow> string \<Rightarrow> nat \<Rightarrow> int option \<Rightarrow> int option \<Rightarrow> sock stmt" where
  "MulticastSocketTransmit_init sys localAddr' localPort' mcastAddr' mcastPort' ttl_arg loop_arg =
     (let ttl' = (case ttl_arg of None \<Rightarrow> 32 | Some t \<Rightarrow> t);
          loop' = (case loop_arg of None \<Rightarrow> 1 | Some l \<Rightarrow> l)
      in seq (MulticastSocketBase_init sys MulticastSocketTransmit_bind localAddr' localPort'
                (Some ttl') (Some loop'))
             (\<lambda>s. (None, s\<lparr>mcastAddr := mcastAddr', mcastPort := mcastPort'\<rparr>)))"

text \<open>
  \<open>MulticastSocketTransmit.transmit(self, data)\<close>: the result is the exception raised,
  or the normal return.
\<close>

definition transmit :: "os \<Rightarrow> sock \<Rightarrow> 8 word list \<Rightarrow> exn + unit" where
  "transmit sys s data =
     (case sendto sys data (mcastAddr s, mcastPort s) of
        Inl e \<Rightarrow> Inl e
      | Inr l \<Rightarrow>
          if l > 0 \<and> l < int (length data)
          then Inl (IOError ''partial transmit: %d of %d to %s'' l (length data))
          else Inr ())"

text \<open>The value last set for a socket option.\<close>

definition getsockopt :: "sock \<Rightarrow> sockopt \<Rightarrow> int option" where
  "getsockopt s opt = map_of (rev (sockopts s)) opt"

text \<open>An operating system that accepts every call and sends every datagram whole.\<close>

definition plain_os :: os where
  "plain_os = \<lparr>setsockopt_ok = (\<lambda>opt v. True), bind_ok = (\<lambda>a. True),
     sendto = (\<lambda>data dest. Inr (int (length data)))\<rparr>"

text \<open>An operating system whose \<open>sendto\<close> reports a fixed byte count.\<close>

definition short_os :: "int \<Rightarrow> os" where
  "short_os n = \<lparr>setsockopt_ok = (\<lambda>opt v. True), bind_ok = (\<lambda>a. True),
     sendto = (\<lambda>data dest. Inr n)\<rparr>"

section \<open>stack/layer2/l_dataService.py\<close>

text \<open>
  Modelled from the spec: the classes \<open>IndividualAddress\<close>, \<open>CEMILData\<close>,
  \<open>PriorityQueue\<close> and \<open>Transmission\<close> are imported by the module and are not part of
  the sources at hand. An individual address is a 16-bit identifier compared by value; a
  cEMI frame carries a message code, source and destination address and a priority
  (any further field lives in the record's extension); the message codes are
  \<open>L_Data.req\<close> 0x11, \<open>L_Data.con\<close> 0x2E, \<open>L_Data.ind\<close> 0x29; a priority queue is four
  FIFO sub-queues, one per priority class; a transmission is a payload with a
  confirmation latch and a result.
\<close>

type_synonym IndividualAddress = "16 word"

datatype Priority = System | Urgent | Normal | Low

record cemi =
  messageCode :: "8 word"
  sourceAddress :: IndividualAddress
  destinationAddress :: "16 word"
  priority :: Priority

definition MC_LDATA_REQ :: "8 word" where
  "MC_LDATA_REQ = 0x11"


definition MC_LDATA_IND :: "8 word" where
  "MC_LDATA_IND = 0x29"

type_synonym 'a PriorityQueue = "Priority \<Rightarrow> 'a list"

definition PriorityQueue_add :: "'a PriorityQueue \<Rightarrow> 'a \<Rightarrow> Priority \<Rightarrow> 'a PriorityQueue" where
  "PriorityQueue_add q item prio = q(prio := q prio @ [item])"

record ('p, 'r) Transmission =
  payload :: 'p
  waitConfirm :: bool
  result :: 'r

text \<open>
  The service object. \<open>ldl\<close> is the upward listener: \<open>None\<close>, or what a call of its
  \<open>dataInd\<close> does (returns, or raises). Beside the attributes of the class the record
  keeps what the service does to its surroundings: the lines it logs and the frames it
  hands to \<open>dataInd\<close>, in order.
\<close>

record ('c, 't) L_DataService =
  individualAddress :: IndividualAddress
  inQueue :: "'c PriorityQueue"
  outQueue :: "'t PriorityQueue"
  ldl :: "('c \<Rightarrow> exn option) option"
  running :: bool
  logged :: "log_entry list"
  indications :: "'c list"

definition Logger :: "level \<Rightarrow> string \<Rightarrow> ('c, 't, 'z) L_DataService_scheme stmt" where
  "Logger lvl msg s = (None, s\<lparr>logged := logged s @ [(lvl, msg)]\<rparr>)"

definition setListener ::
  "('c, 't) L_DataService \<Rightarrow> ('c \<Rightarrow> exn option) \<Rightarrow> ('c, 't) L_DataService" where
  "setListener s l = s\<lparr>ldl := Some l\<rparr>"

definition putInFrame ::
  "('a cemi_scheme, 't) L_DataService \<Rightarrow> 'a cemi_scheme \<Rightarrow> ('a cemi_scheme, 't) L_DataService" where
  "putInFrame s cEMI =
     (let s1 = snd (Logger DEBUG ''L_DataService.putInFrame(): cEMI=%s'' s);
          prio = priority cEMI
      in s1\<lparr>inQueue := PriorityQueue_add (inQueue s1) cEMI prio\<rparr>)"

text \<open>
  \<open>while transmission.waitConfirm: transmission.wait()\<close>. The transmission is shared
  with the transmit thread, which changes it while \<open>wait()\<close> sleeps: the list holds
  the transmission as found at each return of \<open>wait()\<close>. The result is \<open>None\<close> when the
  loop is still waiting after the last of them.
\<close>

fun wait_confirm ::
  "('p, 'r) Transmission \<Rightarrow> ('p, 'r) Transmission list \<Rightarrow> ('p, 'r) Transmission option" where
  "wait_confirm t [] = (if waitConfirm t then None else Some t)"
| "wait_confirm t (t' # wakeups) = (if waitConfirm t then wait_confirm t' wakeups else Some t)"

text \<open>
  \<open>L_DataService.dataReq(self, cEMI)\<close>. \<open>frame\<close> is the \<open>frame\<close> property of the cEMI
  object and \<open>new_Transmission\<close> the constructor of \<open>Transmission\<close>. The result is the
  value returned (\<open>None\<close> while the call is still blocked), the service and the cEMI
  object as the call leaves them. The queue holds the transmission as it was when added.
\<close>

definition dataReq ::
  "('a cemi_scheme \<Rightarrow> 'p) \<Rightarrow> ('p \<Rightarrow> ('p, 'r) Transmission) \<Rightarrow>
   ('c, ('p, 'r) Transmission) L_DataService \<Rightarrow> 'a cemi_scheme \<Rightarrow> ('p, 'r) Transmission list \<Rightarrow>
   'r option \<times> ('c, ('p, 'r) Transmission) L_DataService \<times> 'a cemi_scheme" where
  "dataReq frame new_Transmission s cEMI wakeups =
     (let s1 = snd (Logger DEBUG ''L_DataService.dataReq(): cEMI=%s'' s);
          cEMI1 = cEMI\<lparr>sourceAddress := individualAddress s1\<rparr>;
          prio = priority cEMI1;
          transmission = new_Transmission (frame cEMI1);
          s2 = s1\<lparr>outQueue := PriorityQueue_add (outQueue s1) transmission prio\<rparr>
      in (case wait_confirm transmission wakeups of
            None \<Rightarrow> (None, s2, cEMI1)
          | Some t \<Rightarrow> (Some (result t), s2, cEMI1)))"

text \<open>
  One call of \<open>self._inQueue.remove()\<close>: the frame it returns, or the exception it
  raises. A step of the worker is such a call together with whether \<open>stop()\<close> was
  called (by another thread) before the loop tests \<open>self._running\<close> again.
\<close>

datatype 'c removed = Item 'c | Raises exn

record 'c step =
  removed :: "'c removed"
  stop_called :: bool

definition dataInd :: "('c \<Rightarrow> exn option) \<Rightarrow> 'c \<Rightarrow> ('c, 't) L_DataService stmt" where
  "dataInd l cEMI s = (l cEMI, s\<lparr>indications := indications s @ [cEMI]\<rparr>)"

text \<open>The body of the \<open>try\<close> block in \<open>L_DataService.run\<close>.\<close>

definition run_body :: "'a cemi_scheme removed \<Rightarrow> ('a cemi_scheme, 't) L_DataService stmt" where
  "run_body r s =
     (case r of
        Raises e \<Rightarrow> (Some e, s)
      | Item cEMI \<Rightarrow>
          seq (Logger DEBUG ''L_DataService.run(): cEMI=%s'')
            (\<lambda>s. let srcAddr = sourceAddress cEMI in
               if srcAddr \<noteq> individualAddress s then
                 if messageCode cEMI = MC_LDATA_IND then
                   (case ldl s of
                      None \<Rightarrow> Logger WARNING ''L_GroupDataService.run(): not listener defined'' s
                    | Some l \<Rightarrow> dataInd l cEMI s)
                 else (None, s)
               else (None, s)) s)"

text \<open>One pass through the \<open>while\<close> body: the \<open>try\<close> block under its bare \<open>except\<close>.\<close>

definition run_iteration :: "'a cemi_scheme removed \<Rightarrow> ('a cemi_scheme, 't) L_DataService stmt" where
  "run_iteration r = try_except (run_body r) (\<lambda>e. Logger EXCEPTION ''L_DataService.run()'')"

definition stop :: "('c, 't) L_DataService \<Rightarrow> ('c, 't) L_DataService" where
  "stop s = (snd (Logger TRACE ''L_DataService.stop()'' s))\<lparr>running := False\<rparr>"

text \<open>
  How the \<open>while self._running\<close> loop stands after the given steps: still inside,
  blocked in \<open>remove()\<close>; left because the flag was cleared; or left by an exception.
\<close>

datatype loop_exit = Blocked | Ended | Escaped exn

fun run_loop ::
  "('a cemi_scheme, 't) L_DataService \<Rightarrow> 'a cemi_scheme step list \<Rightarrow>
   loop_exit \<times> ('a cemi_scheme, 't) L_DataService" where
  "run_loop s [] = (if running s then (Blocked, s) else (Ended, s))"
| "run_loop s (st # sts) =
     (if running s then
        (case run_iteration (removed st) s of
           (Some e, s') \<Rightarrow> (Escaped e, s')
         | (None, s') \<Rightarrow> run_loop (if stop_called st then stop s' else s') sts)
      else (Ended, s))"

definition run ::
  "('a cemi_scheme, 't) L_DataService \<Rightarrow> 'a cemi_scheme step list \<Rightarrow>
   loop_exit \<times> ('a cemi_scheme, 't) L_DataService" where
  "run s sts =
     (case run_loop ((snd (Logger TRACE ''L_DataService.run()'' s))\<lparr>running := True\<rparr>) sts of
        (Ended, s') \<Rightarrow> (Ended, snd (Logger TRACE ''L_DataService.run(): ended'' s'))
      | (Blocked, s') \<Rightarrow> (Blocked, s')
      | (Escaped e, s') \<Rightarrow> (Escaped e, s'))"

text \<open>
  \<open>L_DataService.__init__\<close> with a listener-less, stopped service and empty queues.
\<close>

definition new_L_DataService :: "IndividualAddress \<Rightarrow> ('c, 't) L_DataService" where
  "new_L_DataService ia =
     \<lparr>individualAddress = ia, inQueue = (\<lambda>p. []), outQueue = (\<lambda>p. []), ldl = None,
      running = False, logged = [], indications = []\<rparr>"

text \<open>The frames handed out by the \<open>remove()\<close> calls of a list of steps, in order.\<close>

definition frames_of :: "'c step list \<Rightarrow> 'c list" where
  "frames_of sts = concat (map (\<lambda>st. case removed st of Item c \<Rightarrow> [c] | Raises e \<Rightarrow> []) sts)"

text \<open>Concrete inputs: a frame to group address 1/2/3 and a service at 1.1.1.\<close>

definition frame_from :: "IndividualAddress \<Rightarrow> 8 word \<Rightarrow> cemi" where
  "frame_from src mc =
     \<lparr>messageCode = mc, sourceAddress = src, destinationAddress = 0x0A03, priority = Low\<rparr>"

definition example_service :: "(cemi, (cemi, string) Transmission) L_DataService" where
  "example_service = new_L_DataService 0x1101"

definition awaiting :: "cemi \<Rightarrow> (cemi, string) Transmission" where
  "awaiting p = \<lparr>payload = p, waitConfirm = True, result = ''OK''\<rparr>"

section \<open>services/notifier.py\<close>

text \<open>
  The names bound at module level in \<open>notifier.py\<close>: its imports, \<open>logger\<close>,
  \<open>scheduler\<close> and the two classes. A name that the code reads and that is neither
  local nor among these (nor a builtin, which none of the names read here is) raises
  \<open>NameError\<close>.
\<close>

definition notifier_globals :: "string list" where
  "notifier_globals =
     [''six'', ''PyKNyXValueError'', ''reprStr'', ''func_name'', ''meth_name'', ''meth_self'',
      ''meth_func'', ''Singleton'', ''logging'', ''logger'', ''scheduler'',
      ''NotifierValueError'', ''Notifier'']"

definition load_global :: "string \<Rightarrow> 's stmt" where
  "load_global nm s =
     (if nm \<in> set notifier_globals then (None, s) else (Some (NameError nm), s))"

text \<open>The event dictionary built by \<open>datapointNotify\<close>, one field per key.\<close>

record 'v event =
  name :: string
  dp :: string
  oldValue :: 'v
  newValue :: 'v
  condition :: string
  thread :: bool

text \<open>
  The Notifier object over objects \<open>'o\<close>, functions \<open>'f\<close> (compared by identity) and
  bound methods \<open>'m\<close>. Beside \<open>_pendingFuncs\<close> and \<open>_datapointJobs\<close> the record keeps
  what the Notifier does to its surroundings: the lines it logs, the handler calls it
  makes and the threads it starts, in order. The arguments of log lines are not
  evaluated in the model.
\<close>

type_synonym ('o, 'm) jobs = "'o \<rightharpoonup> (string \<rightharpoonup> ('m \<times> string \<times> bool) list)"

record ('o, 'f, 'm, 'v) Notifier =
  pendingFuncs :: "(string \<times> 'f \<times> (string \<times> string \<times> bool)) list"
  datapointJobs :: "('o, 'm) jobs"
  notifier_log :: "log_entry list"
  invoked :: "('m \<times> 'v event) list"
  started_threads :: "('m \<times> 'v event) list"

definition new_Notifier :: "('o, 'f, 'm, 'v) Notifier" where
  "new_Notifier = \<lparr>pendingFuncs = [], datapointJobs = Map.empty, notifier_log = [],
     invoked = [], started_threads = []\<rparr>"

definition logger :: "level \<Rightarrow> string \<Rightarrow> ('o, 'f, 'm, 'v) Notifier stmt" where
  "logger lvl msg n = (None, n\<lparr>notifier_log := notifier_log n @ [(lvl, msg)]\<rparr>)"

text \<open>
  Calling a bound method on an event: \<open>call\<close> says whether that call returns (\<open>None\<close>)
  or raises.
\<close>

definition invoke ::
  "('m \<Rightarrow> 'v event \<Rightarrow> exn option) \<Rightarrow> 'm \<Rightarrow> 'v event \<Rightarrow> ('o, 'f, 'm, 'v) Notifier stmt" where
  "invoke call method ev n = (call method ev, n\<lparr>invoked := invoked n @ [(method, ev)]\<rparr>)"

text \<open>\<open>Notifier._execute(self, method, event)\<close>.\<close>

definition execute ::
  "('m \<Rightarrow> 'v event \<Rightarrow> exn option) \<Rightarrow> 'm \<Rightarrow> 'v event \<Rightarrow> ('o, 'f, 'm, 'v) Notifier stmt" where
  "execute call method ev =
     try_except (invoke call method ev) (\<lambda>e. logger EXCEPTION ''Notifier._execute()'')"

text \<open>
  \<open>Notifier.addDatapointJob(self, func, dp, condition="change", thread=False)\<close>; an
  argument left out is \<open>None\<close>.
\<close>

definition addDatapointJob ::
  "'f \<Rightarrow> string \<Rightarrow> string option \<Rightarrow> bool option \<Rightarrow> ('o, 'f, 'm, 'v) Notifier stmt" where
  "addDatapointJob func dpName cond_arg thread_arg =
     (let cond = (case cond_arg of None \<Rightarrow> ''change'' | Some c \<Rightarrow> c);
          thr = (case thread_arg of None \<Rightarrow> False | Some t \<Rightarrow> t)
      in seq (logger DEBUG ''Notifier.addDatapointJob(): func=%s, dp=%s'')
           (\<lambda>n. if cond \<notin> {''change'', ''always''}
                then (Some (NotifierValueError ''invalid condition (%s)''), n)
                else (None, n\<lparr>pendingFuncs :=
                        pendingFuncs n @ [(''datapoint'', func, (dpName, cond, thr))]\<rparr>)))"

text \<open>
  What \<open>doRegisterJobs\<close> asks of the objects it is given: \<open>getattr(obj, name, None)\<close>,
  and the helpers \<open>func_name\<close> and \<open>meth_func\<close> of \<open>pyknyx.common.utils\<close>, which is not
  part of the sources at hand and is taken as given.
\<close>

record ('o, 'f, 'm) objects =
  getattr :: "'o \<Rightarrow> string \<Rightarrow> 'm option"
  func_name :: "'f \<Rightarrow> string"
  meth_func :: "'m \<Rightarrow> exn + 'f"

definition except_KeyError :: "'s stmt \<Rightarrow> 's stmt \<Rightarrow> 's stmt" where
  "except_KeyError body handler s =
     (case body s of
        (None, s') \<Rightarrow> (None, s')
      | (Some e, s') \<Rightarrow> if e = KeyError then handler s' else (Some e, s'))"

text \<open>The three nested attempts to store a job in \<open>self._datapointJobs[obj][dp]\<close>.\<close>

definition append_job ::
  "'o \<Rightarrow> string \<Rightarrow> 'm \<times> string \<times> bool \<Rightarrow> ('o, 'f, 'm, 'v) Notifier stmt" where
  "append_job obj dpName job n =
     (case datapointJobs n obj of
        None \<Rightarrow> (Some KeyError, n)
      | Some d \<Rightarrow>
          (case d dpName of
             None \<Rightarrow> (Some KeyError, n)
           | Some js \<Rightarrow>
               (None, n\<lparr>datapointJobs := (datapointJobs n)(obj \<mapsto> d(dpName \<mapsto> js @ [job]))\<rparr>)))"

definition set_jobs ::
  "'o \<Rightarrow> string \<Rightarrow> 'm \<times> string \<times> bool \<Rightarrow> ('o, 'f, 'm, 'v) Notifier stmt" where
  "set_jobs obj dpName job n =
     (case datapointJobs n obj of
        None \<Rightarrow> (Some KeyError, n)
      | Some d \<Rightarrow> (None, n\<lparr>datapointJobs := (datapointJobs n)(obj \<mapsto> d(dpName \<mapsto> [job]))\<rparr>))"

definition set_obj_jobs ::
  "'o \<Rightarrow> string \<Rightarrow> 'm \<times> string \<times> bool \<Rightarrow> ('o, 'f, 'm, 'v) Notifier stmt" where
  "set_obj_jobs obj dpName job n =
     (None, n\<lparr>datapointJobs := (datapointJobs n)(obj \<mapsto> [dpName \<mapsto> [job]])\<rparr>)"

definition store_job ::
  "'o \<Rightarrow> string \<Rightarrow> 'm \<times> string \<times> bool \<Rightarrow> ('o, 'f, 'm, 'v) Notifier stmt" where
  "store_job obj dpName job =
     except_KeyError (append_job obj dpName job)
       (except_KeyError (set_jobs obj dpName job) (set_obj_jobs obj dpName job))"

text \<open>The body of the \<open>for\<close> loop of \<open>doRegisterJobs\<close>, for one pending entry.\<close>

definition register_pending ::
  "('o, 'f, 'm) objects \<Rightarrow> 'o \<Rightarrow> string \<times> 'f \<times> (string \<times> string \<times> bool) \<Rightarrow>
   ('o, 'f, 'm, 'v) Notifier stmt" where
  "register_pending objs obj entry =
     (case entry of (type_, func, args) \<Rightarrow>
        seq (logger DEBUG ''Notifier.doRegisterJobs(): type_=\"%s\", func=%s, args=%s'')
          (\<lambda>n. case getattr objs obj (func_name objs func) of
                  None \<Rightarrow> (None, n)
                | Some method \<Rightarrow>
                    seq (logger DEBUG ''Notifier.doRegisterJobs(): add method %s() of %s'')
                      (\<lambda>n. case meth_func objs method of
                              Inl e \<Rightarrow> (Some e, n)
                            | Inr f \<Rightarrow>
                                if f = func then
                                  if type_ = ''datapoint'' then
                                    (case args of (dpName, cond, thr) \<Rightarrow>
                                       store_job obj dpName (method, cond, thr) n)
                                  else (None, n)
                                else (None, n)) n))"

text \<open>\<open>Notifier.doRegisterJobs(self, obj)\<close>.\<close>

definition doRegisterJobs ::
  "('o, 'f, 'm) objects \<Rightarrow> 'o \<Rightarrow> ('o, 'f, 'm, 'v) Notifier stmt" where
  "doRegisterJobs objs obj =
     seq (logger DEBUG ''Notifier.doRegisterJobs(): obj=%s'')
       (\<lambda>n. for_each (pendingFuncs n) (register_pending objs obj) n)"

text \<open>
  \<open>thread.start_new_thread(self._execute, (method, event))\<close>, once the name \<open>thread\<close>
  has been looked up: the new thread would run \<open>_execute\<close> on its own; the model
  records that it was started.
\<close>

definition start_new_thread :: "'m \<Rightarrow> 'v event \<Rightarrow> ('o, 'f, 'm, 'v) Notifier stmt" where
  "start_new_thread method ev n =
     (None, n\<lparr>started_threads := started_threads n @ [(method, ev)]\<rparr>)"

text \<open>The body of the \<open>for\<close> loop of \<open>datapointNotify\<close>, for one registered job.\<close>

definition notify_job ::
  "('m \<Rightarrow> 'v event \<Rightarrow> exn option) \<Rightarrow> string \<Rightarrow> 'v \<Rightarrow> 'v \<Rightarrow> 'm \<times> string \<times> bool \<Rightarrow>
   ('o, 'f, 'm, 'v) Notifier stmt" where
  "notify_job call dpName old new job =
     (case job of (method, cond, thread_) \<Rightarrow>
        if old \<noteq> new \<and> cond = ''change'' \<or> cond = ''always'' then
          try_except
            (seq (logger DEBUG ''Notifier.datapointNotify(): trigger method %s() of %s'')
               (let ev = \<lparr>name = ''datapoint'', dp = dpName, oldValue = old, newValue = new,
                          condition = cond, thread = thread_\<rparr>
                in if thread_
                   then seq (load_global ''thread'') (start_new_thread method ev)
                   else execute call method ev))
            (\<lambda>e. logger EXCEPTION ''Notifier.datapointNotify()'')
        else (\<lambda>n. (None, n)))"

text \<open>\<open>Notifier.datapointNotify(self, obj, dp, oldValue, newValue)\<close>.\<close>

definition datapointNotify ::
  "('m \<Rightarrow> 'v event \<Rightarrow> exn option) \<Rightarrow> 'o \<Rightarrow> string \<Rightarrow> 'v \<Rightarrow> 'v \<Rightarrow>
   ('o, 'f, 'm, 'v) Notifier stmt" where
  "datapointNotify call obj dpName old new =
     seq (logger DEBUG ''Notifier.datapointNotify(): obj=%s, dp=%s, oldValue=%s, newValue=%s'')
       (\<lambda>n. case datapointJobs n obj of
               None \<Rightarrow> (None, n)
             | Some d \<Rightarrow>
                 (case d dpName of
                    None \<Rightarrow> (None, n)
                  | Some js \<Rightarrow> for_each js (notify_job call dpName old new) n))"

text \<open>The jobs registered for a datapoint of an object; none when a key is missing.\<close>

definition jobs_of :: "('o, 'f, 'm, 'v) Notifier \<Rightarrow> 'o \<Rightarrow> string \<Rightarrow> ('m \<times> string \<times> bool) list" where
  "jobs_of n obj dpName =
     (case datapointJobs n obj of
        None \<Rightarrow> []
      | Some d \<Rightarrow> (case d dpName of None \<Rightarrow> [] | Some js \<Rightarrow> js))"

text \<open>
  Concrete inputs. Objects and functions are numbered; a bound method is its object
  with its function. Class A (objects below 10) defines functions 11 (\<open>tempChanged\<close>)
  and 12 (\<open>doorChanged\<close>); class B (the other objects) defines function 13, also
  called \<open>tempChanged\<close>.
\<close>

definition example_objects :: "(nat, nat, nat \<times> nat) objects" where
  "example_objects =
     \<lparr>getattr = (\<lambda>obj nm.
         if nm = ''tempChanged'' then Some (obj, if obj < 10 then 11 else 13)
         else if nm = ''doorChanged'' \<and> obj < 10 then Some (obj, 12)
         else None),
      func_name = (\<lambda>f. if f = 12 then ''doorChanged'' else ''tempChanged''),
      meth_func = (\<lambda>m. Inr (snd m))\<rparr>"

text \<open>Handlers that all return, and handlers of which function 11 raises.\<close>

definition all_return :: "nat \<times> nat \<Rightarrow> int event \<Rightarrow> exn option" where
  "all_return m ev = None"

definition first_raises :: "nat \<times> nat \<Rightarrow> int event \<Rightarrow> exn option" where
  "first_raises m ev = (if snd m = 11 then Some (UserError ''boom'') else None)"

text \<open>
  The Notifier after the class body decorated \<open>func\<close> for the datapoint \<open>temp\<close> and
  an instance \<open>obj\<close> was registered.
\<close>

definition registered ::
  "nat \<Rightarrow> nat \<Rightarrow> string \<Rightarrow> bool \<Rightarrow> (nat, nat, nat \<times> nat, int) Notifier" where
  "registered obj func cond thr =
     snd (doRegisterJobs example_objects obj
       (snd (addDatapointJob func ''temp'' (Some cond) (Some thr) new_Notifier)))"

text \<open>
  The handler calls made by one run of the loop of \<open>datapointNotify\<close> over a list of
  jobs, as the lemmas below establish them: one call per job whose condition holds
  and which is not marked \<open>thread\<close>.
\<close>

fun handler_calls :: "string \<Rightarrow> 'v \<Rightarrow> 'v \<Rightarrow> ('m \<times> string \<times> bool) list \<Rightarrow> ('m \<times> 'v event) list" where
  "handler_calls dpn old new [] = []"
| "handler_calls dpn old new ((m, c, t) # js) =
     (if (old \<noteq> new \<and> c = ''change'' \<or> c = ''always'') \<and> \<not> t
      then [(m, \<lparr>name = ''datapoint'', dp = dpn, oldValue = old, newValue = new,
                 condition = c, thread = False\<rparr>)]
      else []) @ handler_calls dpn old new js"

text \<open>
  The Notifier after functions 11 and 12 were both decorated for the datapoint \<open>temp\<close>
  with condition \<open>always\<close> and object 2 was registered.
\<close>

definition registered_pair :: "(nat, nat, nat \<times> nat, int) Notifier" where
  "registered_pair =
     snd (doRegisterJobs example_objects 2
       (snd (addDatapointJob 12 ''temp'' (Some ''always'') None
         (snd (addDatapointJob 11 ''temp'' (Some ''always'') None new_Notifier)))))"

section \<open>Multicast socket: construction and transmit\<close>

lemma setsockopt_result:
  "setsockopt sys opt v s = (None, s') \<Longrightarrow> s' = s\<lparr>sockopts := sockopts s @ [(opt, v)]\<rparr>"
  by (auto simp: setsockopt_def split: if_splits)

lemma setsockopt_failure:
  "setsockopt sys opt v s = (Some e, s') \<Longrightarrow> s' = s"
  by (auto simp: setsockopt_def split: if_splits)

lemma reuseport_attempt:
  "try_except (setsockopt sys SO_REUSEPORT 1) (\<lambda>e. sock_logger_exception msg) s =
     (if setsockopt_ok sys SO_REUSEPORT 1
      then (None, s\<lparr>sockopts := sockopts s @ [(SO_REUSEPORT, 1)]\<rparr>)
      else (None, s\<lparr>sock_log := sock_log s @ [(EXCEPTION, msg)]\<rparr>))"
  by (simp add: try_except_def setsockopt_def sock_logger_exception_def)

lemma MulticastSocketBase_init_sockopts:
  assumes "MulticastSocketBase_init sys bind_method la lp (Some t) (Some l) s = (None, s')"
    and "\<And>x r y. bind_method sys x = (r, y) \<Longrightarrow> sockopts y = sockopts x"
  shows "getsockopt s' IP_MULTICAST_TTL = Some t \<and> getsockopt s' IP_MULTICAST_LOOP = Some l"
  using assms
  by (auto simp: MulticastSocketBase_init_def Let_def seq_def reuseport_attempt setsockopt_def
      getsockopt_def split: if_splits prod.splits option.splits)

lemma MulticastSocketTransmit_bind_sockopts:
  "MulticastSocketTransmit_bind sys x = (r, y) \<Longrightarrow> sockopts y = sockopts x"
  by (auto simp: MulticastSocketTransmit_bind_def bind_def split: if_splits)

text \<open>
  C7 (as stated, refuted). A transmit socket constructed with the default parameters on
  an operating system that accepts every call has \<open>IP_MULTICAST_LOOP\<close> set to 1:
  multicast loopback is enabled, not disabled.
\<close>

theorem transmit_socket_default_loop_counterexample:
  "fst (MulticastSocketTransmit_init plain_os ''192.168.1.10'' 0 ''224.0.23.12'' 3671
          None None new_sock) = None \<and>
   getsockopt (snd (MulticastSocketTransmit_init plain_os ''192.168.1.10'' 0 ''224.0.23.12'' 3671
          None None new_sock)) IP_MULTICAST_LOOP = Some 1 \<and>
   getsockopt (snd (MulticastSocketTransmit_init plain_os ''192.168.1.10'' 0 ''224.0.23.12'' 3671
          None None new_sock)) IP_MULTICAST_LOOP \<noteq> Some 0"
  by (simp add: MulticastSocketTransmit_init_def MulticastSocketBase_init_def Let_def seq_def
      reuseport_attempt setsockopt_def getsockopt_def plain_os_def new_sock_def
      MulticastSocketTransmit_bind_def bind_def)

text \<open>
  C7 (amended). Whenever the construction of a transmit socket with the default
  parameters succeeds, the socket options set at construction give TTL 32 and
  \<open>IP_MULTICAST_LOOP\<close> 1 (multicast loopback enabled: \<open>loop\<close> defaults to 1).
\<close>

theorem transmit_socket_default_options:
  assumes "MulticastSocketTransmit_init sys la lp ma mp None None s = (None, s')"
  shows "getsockopt s' IP_MULTICAST_TTL = Some 32 \<and> getsockopt s' IP_MULTICAST_LOOP = Some 1"
proof -
  obtain r s1 where base:
    "MulticastSocketBase_init sys MulticastSocketTransmit_bind la lp (Some 32) (Some 1) s = (r, s1)"
    by (cases "MulticastSocketBase_init sys MulticastSocketTransmit_bind la lp (Some 32) (Some 1) s")
  from assms base have r: "r = None" and s': "s' = s1\<lparr>mcastAddr := ma, mcastPort := mp\<rparr>"
    by (auto simp: MulticastSocketTransmit_init_def Let_def seq_def split: option.splits)
  from base r have "getsockopt s1 IP_MULTICAST_TTL = Some 32 \<and>
      getsockopt s1 IP_MULTICAST_LOOP = Some 1"
    using MulticastSocketBase_init_sockopts [of sys MulticastSocketTransmit_bind la lp 32 1 s s1]
      MulticastSocketTransmit_bind_sockopts by blast
  with s' show ?thesis by (simp add: getsockopt_def)
qed

theorem transmit_socket_default_options_witness:
  "MulticastSocketTransmit_init plain_os ''192.168.1.10'' 0 ''224.0.23.12'' 3671 None None new_sock =
     (None, snd (MulticastSocketTransmit_init plain_os ''192.168.1.10'' 0 ''224.0.23.12'' 3671
        None None new_sock)) \<and>
   getsockopt (snd (MulticastSocketTransmit_init plain_os ''192.168.1.10'' 0 ''224.0.23.12'' 3671
        None None new_sock)) IP_MULTICAST_TTL = Some 32 \<and>
   getsockopt (snd (MulticastSocketTransmit_init plain_os ''192.168.1.10'' 0 ''224.0.23.12'' 3671
        None None new_sock)) IP_MULTICAST_LOOP = Some 1"
proof -
  have h: "MulticastSocketTransmit_init plain_os ''192.168.1.10'' 0 ''224.0.23.12'' 3671 None None
      new_sock =
     (None, snd (MulticastSocketTransmit_init plain_os ''192.168.1.10'' 0 ''224.0.23.12'' 3671
        None None new_sock))"
    by (simp add: MulticastSocketTransmit_init_def MulticastSocketBase_init_def Let_def seq_def
        reuseport_attempt setsockopt_def plain_os_def new_sock_def
        MulticastSocketTransmit_bind_def bind_def)
  from transmit_socket_default_options [OF h] h show ?thesis by blast
qed

text \<open>
  C8 (as stated, refuted). When \<open>sendto\<close> reports 0 bytes for a datagram of 3 bytes,
  fewer than \<open>len(data)\<close>, \<open>transmit\<close> returns normally.
\<close>

theorem transmit_zero_bytes_counterexample:
  "sendto (short_os 0) [1, 2, 3] (mcastAddr new_sock, mcastPort new_sock) = Inr 0 \<and>
   (0::int) < int (length [1, 2, 3 :: 8 word]) \<and>
   transmit (short_os 0) new_sock [1, 2, 3] = Inr ()"
  by (simp add: transmit_def short_os_def)

text \<open>
  C8 (amended). When the underlying send reports \<open>l\<close> bytes, \<open>transmit\<close> raises
  \<open>IOError\<close> ("partial transmit") exactly when \<open>0 < l < len(data)\<close>; otherwise, and
  so when the send reports 0 bytes, it returns normally.
\<close>

theorem transmit_partial_send:
  assumes "sendto sys data (mcastAddr s, mcastPort s) = Inr l"
  shows "transmit sys s data =
     (if 0 < l \<and> l < int (length data)
      then Inl (IOError ''partial transmit: %d of %d to %s'' l (length data))
      else Inr ())"
  using assms by (simp add: transmit_def)

theorem transmit_partial_send_witness:
  "sendto (short_os 1) [1, 2, 3] (mcastAddr new_sock, mcastPort new_sock) = Inr 1 \<and>
   transmit (short_os 1) new_sock [1, 2, 3] =
     Inl (IOError ''partial transmit: %d of %d to %s'' 1 3)"
proof -
  have h: "sendto (short_os 1) [1, 2, 3] (mcastAddr new_sock, mcastPort new_sock) = Inr 1"
    by (simp add: short_os_def)
  from transmit_partial_send [OF h] h show ?thesis by simp
qed

section \<open>Link data service: the inbound worker and \<open>dataReq\<close>\<close>

lemma run_iteration_Item:
  "run_iteration (Item c) s =
     (None,
      if sourceAddress c \<noteq> individualAddress s \<and> messageCode c = MC_LDATA_IND then
        (case ldl s of
           None \<Rightarrow> s\<lparr>logged := logged s @ [(DEBUG, ''L_DataService.run(): cEMI=%s''),
                       (WARNING, ''L_GroupDataService.run(): not listener defined'')]\<rparr>
         | Some l \<Rightarrow>
             (case l c of
                None \<Rightarrow> s\<lparr>logged := logged s @ [(DEBUG, ''L_DataService.run(): cEMI=%s'')],
                           indications := indications s @ [c]\<rparr>
              | Some e \<Rightarrow> s\<lparr>logged := logged s @ [(DEBUG, ''L_DataService.run(): cEMI=%s''),
                             (EXCEPTION, ''L_DataService.run()'')],
                           indications := indications s @ [c]\<rparr>))
      else s\<lparr>logged := logged s @ [(DEBUG, ''L_DataService.run(): cEMI=%s'')]\<rparr>)"
  by (simp add: run_iteration_def run_body_def try_except_def seq_def Logger_def dataInd_def
      Let_def split: option.splits)

lemma run_iteration_Raises:
  "run_iteration (Raises e) s = (None, s\<lparr>logged := logged s @ [(EXCEPTION, ''L_DataService.run()'')]\<rparr>)"
  by (simp add: run_iteration_def run_body_def try_except_def Logger_def)

lemma run_iteration_no_exception: "fst (run_iteration r s) = None"
  by (cases r) (simp_all add: run_iteration_Item run_iteration_Raises)

lemma run_iteration_preserves:
  "individualAddress (snd (run_iteration r s)) = individualAddress s"
  "ldl (snd (run_iteration r s)) = ldl s"
  "outQueue (snd (run_iteration r s)) = outQueue s"
  "inQueue (snd (run_iteration r s)) = inQueue s"
  "running (snd (run_iteration r s)) = running s"
  by (cases r; simp add: run_iteration_Item run_iteration_Raises split: option.splits)+

lemma stop_preserves:
  "individualAddress (stop s) = individualAddress s"
  "ldl (stop s) = ldl s"
  "outQueue (stop s) = outQueue s"
  "indications (stop s) = indications s"
  "running (stop s) = False"
  by (simp_all add: stop_def Logger_def)

lemma run_loop_preserves:
  "individualAddress (snd (run_loop s sts)) = individualAddress s \<and>
   ldl (snd (run_loop s sts)) = ldl s \<and>
   outQueue (snd (run_loop s sts)) = outQueue s"
proof (induction sts arbitrary: s)
  case Nil
  show ?case by simp
next
  case (Cons st sts)
  obtain r s' where it: "run_iteration (removed st) s = (r, s')"
    by (cases "run_iteration (removed st) s")
  with run_iteration_no_exception [of "removed st" s] have r: "r = None" by simp
  from it run_iteration_preserves [of "removed st" s]
  have p: "individualAddress s' = individualAddress s" "ldl s' = ldl s" "outQueue s' = outQueue s"
    by simp_all
  show ?case using it r p Cons.IH [of s'] Cons.IH [of "stop s'"]
    by (simp add: stop_preserves)
qed

lemma run_loop_never_escapes: "fst (run_loop s sts) \<noteq> Escaped e"
proof (induction sts arbitrary: s)
  case Nil
  show ?case by simp
next
  case (Cons st sts)
  obtain r s' where it: "run_iteration (removed st) s = (r, s')"
    by (cases "run_iteration (removed st) s")
  with run_iteration_no_exception [of "removed st" s] have r: "r = None" by simp
  show ?case using it r Cons.IH [of s'] Cons.IH [of "stop s'"] by simp
qed

lemma run_loop_indications_foreign:
  "c \<in> set (indications (snd (run_loop s sts))) \<Longrightarrow>
     c \<in> set (indications s) \<or> sourceAddress c \<noteq> individualAddress s"
proof (induction sts arbitrary: s)
  case Nil
  then show ?case by (auto split: if_splits)
next
  case (Cons st sts)
  obtain r s' where it: "run_iteration (removed st) s = (r, s')"
    by (cases "run_iteration (removed st) s")
  with run_iteration_no_exception [of "removed st" s] have r: "r = None" by simp
  from it run_iteration_preserves [of "removed st" s]
  have ia: "individualAddress s' = individualAddress s" by simp
  have step: "d \<in> set (indications s') \<Longrightarrow>
      d \<in> set (indications s) \<or> sourceAddress d \<noteq> individualAddress s" for d
    using it by (cases "removed st")
      (auto simp: run_iteration_Item run_iteration_Raises split: if_splits option.splits)
  show ?case
  proof (cases "running s")
    case False
    with Cons.prems show ?thesis by simp
  next
    case True
    show ?thesis
    proof (cases "stop_called st")
      case True
      with \<open>running s\<close> Cons.prems it r
      have "c \<in> set (indications (snd (run_loop (stop s') sts)))" by simp
      from Cons.IH [OF this] step [of c] ia show ?thesis by (auto simp: stop_preserves)
    next
      case False
      with \<open>running s\<close> Cons.prems it r
      have "c \<in> set (indications (snd (run_loop s' sts)))" by simp
      from Cons.IH [OF this] step [of c] ia show ?thesis by auto
    qed
  qed
qed


lemma run_loop_blocked:
  "running s \<Longrightarrow> \<forall>st \<in> set sts. \<not> stop_called st \<Longrightarrow> fst (run_loop s sts) = Blocked"
proof (induction sts arbitrary: s)
  case Nil
  then show ?case by simp
next
  case (Cons st sts)
  obtain r s' where it: "run_iteration (removed st) s = (r, s')"
    by (cases "run_iteration (removed st) s")
  with run_iteration_no_exception [of "removed st" s] have r: "r = None" by simp
  from it run_iteration_preserves(5) [of "removed st" s] Cons.prems have "running s'" by simp
  from Cons.IH [OF this] Cons.prems it r show ?case by simp
qed

lemma run_loop_indications:
  "running s \<Longrightarrow> \<forall>st \<in> set sts. \<not> stop_called st \<Longrightarrow> ldl s = Some l \<Longrightarrow>
   indications (snd (run_loop s sts)) =
     indications s @
     filter (\<lambda>c. sourceAddress c \<noteq> individualAddress s \<and> messageCode c = MC_LDATA_IND)
       (frames_of sts)"
proof (induction sts arbitrary: s)
  case Nil
  then show ?case by (simp add: frames_of_def)
next
  case (Cons st sts)
  obtain r s' where it: "run_iteration (removed st) s = (r, s')"
    by (cases "run_iteration (removed st) s")
  with run_iteration_no_exception [of "removed st" s] have r: "r = None" by simp
  from it run_iteration_preserves [of "removed st" s] Cons.prems
  have p: "running s'" "ldl s' = Some l" "individualAddress s' = individualAddress s" by simp_all
  have ind: "indications s' = indications s @
      filter (\<lambda>c. sourceAddress c \<noteq> individualAddress s \<and> messageCode c = MC_LDATA_IND)
        (case removed st of Item c \<Rightarrow> [c] | Raises e \<Rightarrow> [])"
    using it Cons.prems(3) by (cases "removed st")
      (auto simp: run_iteration_Item run_iteration_Raises split: option.splits)
  from Cons.IH [OF p(1) _ p(2)] Cons.prems(1,2) it r ind p(3) show ?case
    by (simp add: frames_of_def)
qed

text \<open>
  C1. A frame drained from the inbound queue whose source address is the service's own
  individual address is dropped, whatever its message code: the pass through the loop
  body only writes the debug line and raises nothing, and no frame that the worker ever
  hands to \<open>dataInd\<close> carries the service's own address as its source.
\<close>

theorem own_frames_dropped:
  "(sourceAddress cEMI = individualAddress s \<longrightarrow>
      run_iteration (Item cEMI) s =
        (None, s\<lparr>logged := logged s @ [(DEBUG, ''L_DataService.run(): cEMI=%s'')]\<rparr>)) \<and>
   (\<forall>c \<in> set (indications (snd (run s sts))).
      c \<in> set (indications s) \<or> sourceAddress c \<noteq> individualAddress s)"
proof -
  let ?s0 = "(snd (Logger TRACE ''L_DataService.run()'' s))\<lparr>running := True\<rparr>"
  have s0: "indications ?s0 = indications s" "individualAddress ?s0 = individualAddress s"
    by (simp_all add: Logger_def)
  have ind: "indications (snd (run s sts)) = indications (snd (run_loop ?s0 sts))"
    by (simp add: run_def Logger_def split: prod.splits loop_exit.splits)
  have "c \<in> set (indications s) \<or> sourceAddress c \<noteq> individualAddress s"
    if "c \<in> set (indications (snd (run s sts)))" for c
    using that run_loop_indications_foreign [of c ?s0 sts] unfolding ind s0 by blast
  then show ?thesis by (simp add: run_iteration_Item)
qed

theorem own_frames_dropped_witness:
  "sourceAddress (frame_from 0x1101 MC_LDATA_IND) =
     individualAddress (setListener example_service (\<lambda>c. None)) \<and>
   indications (snd (run_iteration (Item (frame_from 0x1101 MC_LDATA_IND))
     (setListener example_service (\<lambda>c. None)))) = []"
  using own_frames_dropped [of "frame_from 0x1101 MC_LDATA_IND"
      "setListener example_service (\<lambda>c. None)" "[]"]
  by (simp add: frame_from_def example_service_def setListener_def new_L_DataService_def)



lemma run_loop_no_listener_indications:
  "ldl s = None \<Longrightarrow> indications (snd (run_loop s sts)) = indications s"
proof (induction sts arbitrary: s)
  case Nil
  then show ?case by simp
next
  case (Cons st sts)
  obtain r s' where it: "run_iteration (removed st) s = (r, s')"
    by (cases "run_iteration (removed st) s")
  with run_iteration_no_exception [of "removed st" s] have r: "r = None" by simp
  from it run_iteration_preserves(2) [of "removed st" s] Cons.prems
  have l: "ldl s' = None" by simp
  have ind: "indications s' = indications s"
    using it Cons.prems by (cases "removed st")
      (auto simp: run_iteration_Item run_iteration_Raises split: if_splits)
  from l have l2: "ldl (stop s') = None" by (simp add: stop_preserves)
  show ?case
    using it r ind Cons.IH [OF l] Cons.IH [OF l2] by (simp add: stop_preserves)
qed

lemma run_loop_no_listener_warnings:
  "ldl s = None \<Longrightarrow> running s \<Longrightarrow> \<forall>st \<in> set sts. \<not> stop_called st \<Longrightarrow>
   length (filter (\<lambda>e. e = (WARNING, ''L_GroupDataService.run(): not listener defined''))
     (logged (snd (run_loop s sts)))) =
   length (filter (\<lambda>e. e = (WARNING, ''L_GroupDataService.run(): not listener defined''))
     (logged s)) +
   length (filter (\<lambda>c. sourceAddress c \<noteq> individualAddress s \<and> messageCode c = MC_LDATA_IND)
     (frames_of sts))"
proof (induction sts arbitrary: s)
  case Nil
  then show ?case by (simp add: frames_of_def)
next
  case (Cons st sts)
  let ?w = "\<lambda>e. e = (WARNING, ''L_GroupDataService.run(): not listener defined'')"
  obtain r s' where it: "run_iteration (removed st) s = (r, s')"
    by (cases "run_iteration (removed st) s")
  with run_iteration_no_exception [of "removed st" s] have r: "r = None" by simp
  from it run_iteration_preserves [of "removed st" s] Cons.prems
  have p: "ldl s' = None" "running s'" "individualAddress s' = individualAddress s" by simp_all
  have lg: "length (filter ?w (logged s')) = length (filter ?w (logged s)) +
      length (filter (\<lambda>c. sourceAddress c \<noteq> individualAddress s \<and> messageCode c = MC_LDATA_IND)
        (case removed st of Item c \<Rightarrow> [c] | Raises e \<Rightarrow> []))"
    using it Cons.prems(1) by (cases "removed st")
      (auto simp: run_iteration_Item run_iteration_Raises)
  from Cons.IH [OF p(1) p(2)] Cons.prems(2,3) it r lg p(3) show ?case
    by (simp add: frames_of_def)
qed

text \<open>
  C9. Without a listener, an inbound \<open>L_Data.ind\<close> frame with a foreign source address
  makes the worker log a warning and drop the frame without raising. The worker loop is
  never left by an exception, whatever \<open>remove()\<close> and the listener do, and as long as
  \<open>stop()\<close> is not called it is still running after every step. Over a whole run
  without a listener no frame is handed upward, and the run logs one warning for each
  foreign \<open>L_Data.ind\<close> frame it drains.
\<close>

theorem no_listener_warns_and_loop_survives:
  "(ldl s = None \<and> sourceAddress cEMI \<noteq> individualAddress s \<and>
    messageCode cEMI = MC_LDATA_IND \<longrightarrow>
      run_iteration (Item cEMI) s =
        (None, s\<lparr>logged := logged s @ [(DEBUG, ''L_DataService.run(): cEMI=%s''),
           (WARNING, ''L_GroupDataService.run(): not listener defined'')]\<rparr>)) \<and>
   (\<forall>e. fst (run s sts) \<noteq> Escaped e) \<and>
   ((\<forall>st \<in> set sts. \<not> stop_called st) \<longrightarrow> fst (run s sts) = Blocked) \<and>
   (ldl s = None \<longrightarrow> indications (snd (run s sts)) = indications s) \<and>
   (ldl s = None \<and> (\<forall>st \<in> set sts. \<not> stop_called st) \<longrightarrow>
      length (filter (\<lambda>e. e = (WARNING, ''L_GroupDataService.run(): not listener defined''))
        (logged (snd (run s sts)))) =
      length (filter (\<lambda>e. e = (WARNING, ''L_GroupDataService.run(): not listener defined''))
        (logged s)) +
      length (filter (\<lambda>c. sourceAddress c \<noteq> individualAddress s \<and> messageCode c = MC_LDATA_IND)
        (frames_of sts)))"
proof -
  let ?s0 = "(snd (Logger TRACE ''L_DataService.run()'' s))\<lparr>running := True\<rparr>"
  let ?w = "\<lambda>e. e = (WARNING, ''L_GroupDataService.run(): not listener defined'')"
  have s0: "ldl ?s0 = ldl s" "running ?s0" "individualAddress ?s0 = individualAddress s"
    "indications ?s0 = indications s"
    "filter ?w (logged ?s0) = filter ?w (logged s)"
    by (simp_all add: Logger_def)
  have fst_run: "fst (run s sts) = fst (run_loop ?s0 sts)"
    by (simp add: run_def split: prod.splits loop_exit.splits)
  have ind_run: "indications (snd (run s sts)) = indications (snd (run_loop ?s0 sts))"
    by (simp add: run_def Logger_def split: prod.splits loop_exit.splits)
  have esc: "fst (run s sts) \<noteq> Escaped e" for e
    unfolding fst_run by (rule run_loop_never_escapes)
  have blk: "fst (run s sts) = Blocked" if "\<forall>st \<in> set sts. \<not> stop_called st"
    unfolding fst_run using that by (intro run_loop_blocked) simp_all
  have ind: "indications (snd (run s sts)) = indications s" if "ldl s = None"
    unfolding ind_run using run_loop_no_listener_indications [of ?s0 sts] that s0 by simp
  have wrn: "length (filter ?w (logged (snd (run s sts)))) =
      length (filter ?w (logged s)) +
      length (filter (\<lambda>c. sourceAddress c \<noteq> individualAddress s \<and> messageCode c = MC_LDATA_IND)
        (frames_of sts))"
    if n: "ldl s = None" and ns: "\<forall>st \<in> set sts. \<not> stop_called st"
  proof -
    from blk [OF ns] fst_run have b: "fst (run_loop ?s0 sts) = Blocked" by simp
    then have "snd (run s sts) = snd (run_loop ?s0 sts)"
      by (cases "run_loop ?s0 sts") (simp add: run_def)
    moreover from n s0(1) have "ldl ?s0 = None" by simp
    from run_loop_no_listener_warnings [OF this s0(2) ns]
    have "length (filter ?w (logged (snd (run_loop ?s0 sts)))) =
      length (filter ?w (logged s)) +
      length (filter (\<lambda>c. sourceAddress c \<noteq> individualAddress s \<and> messageCode c = MC_LDATA_IND)
        (frames_of sts))"
      unfolding s0(3) s0(5) .
    ultimately show ?thesis by simp
  qed
  from esc blk ind wrn show ?thesis by (simp add: run_iteration_Item)
qed

theorem no_listener_warns_and_loop_survives_witness:
  "ldl example_service = None \<and>
   sourceAddress (frame_from 0x1102 MC_LDATA_IND) \<noteq> individualAddress example_service \<and>
   messageCode (frame_from 0x1102 MC_LDATA_IND) = MC_LDATA_IND \<and>
   logged (snd (run_iteration (Item (frame_from 0x1102 MC_LDATA_IND)) example_service)) =
     [(DEBUG, ''L_DataService.run(): cEMI=%s''),
      (WARNING, ''L_GroupDataService.run(): not listener defined'')] \<and>
   indications (snd (run_iteration (Item (frame_from 0x1102 MC_LDATA_IND)) example_service)) = [] \<and>
   fst (run example_service
     [\<lparr>removed = Item (frame_from 0x1102 MC_LDATA_IND), stop_called = False\<rparr>,
      \<lparr>removed = Raises (UserError ''queue''), stop_called = False\<rparr>]) = Blocked \<and>
   indications (snd (run example_service
     [\<lparr>removed = Item (frame_from 0x1102 MC_LDATA_IND), stop_called = False\<rparr>,
      \<lparr>removed = Raises (UserError ''queue''), stop_called = False\<rparr>])) = [] \<and>
   logged (snd (run example_service
     [\<lparr>removed = Item (frame_from 0x1102 MC_LDATA_IND), stop_called = False\<rparr>,
      \<lparr>removed = Raises (UserError ''queue''), stop_called = False\<rparr>])) =
     [(TRACE, ''L_DataService.run()''),
      (DEBUG, ''L_DataService.run(): cEMI=%s''),
      (WARNING, ''L_GroupDataService.run(): not listener defined''),
      (EXCEPTION, ''L_DataService.run()'')]"
proof -
  let ?sts = "[\<lparr>removed = Item (frame_from 0x1102 MC_LDATA_IND), stop_called = False\<rparr>,
      \<lparr>removed = Raises (UserError ''queue''), stop_called = False\<rparr>]"
  have lg: "logged (snd (run example_service ?sts)) =
     [(TRACE, ''L_DataService.run()''),
      (DEBUG, ''L_DataService.run(): cEMI=%s''),
      (WARNING, ''L_GroupDataService.run(): not listener defined''),
      (EXCEPTION, ''L_DataService.run()'')]"
    by (simp add: run_def run_iteration_Item run_iteration_Raises Logger_def frame_from_def
        example_service_def new_L_DataService_def)
  from no_listener_warns_and_loop_survives [of example_service "frame_from 0x1102 MC_LDATA_IND"
      ?sts] lg
  show ?thesis
    by (simp add: frame_from_def example_service_def new_L_DataService_def)
qed

lemma wait_confirm_find:
  "wait_confirm t wakeups = List.find (\<lambda>t. \<not> waitConfirm t) (t # wakeups)"
  by (induction wakeups arbitrary: t) simp_all

text \<open>
  C5. \<open>dataReq\<close> overwrites the source address of the frame with the service's own
  individual address and changes no other field of it; it wraps the frame in a
  transmission and appends that transmission to the outbound queue under the frame's
  priority; it waits until the transmission no longer awaits confirmation (and is still
  blocked exactly when every state of the transmission seen so far awaits confirmation)
  and returns the result of the transmission as found then.
\<close>

theorem dataReq_effect:
  assumes "dataReq frame new_Transmission s cEMI wakeups = (r, s', cEMI')"
  shows "cEMI' = cEMI\<lparr>sourceAddress := individualAddress s\<rparr> \<and>
         s' = s\<lparr>logged := logged s @ [(DEBUG, ''L_DataService.dataReq(): cEMI=%s'')],
                outQueue := PriorityQueue_add (outQueue s) (new_Transmission (frame cEMI'))
                   (priority cEMI)\<rparr> \<and>
         r = map_option result
               (List.find (\<lambda>t. \<not> waitConfirm t) (new_Transmission (frame cEMI') # wakeups)) \<and>
         (r = None) = (\<forall>t \<in> set (new_Transmission (frame cEMI') # wakeups). waitConfirm t)"
proof -
  let ?t0 = "new_Transmission (frame (cEMI\<lparr>sourceAddress := individualAddress s\<rparr>))"
  have 1: "cEMI' = cEMI\<lparr>sourceAddress := individualAddress s\<rparr>"
    and 2: "s' = s\<lparr>logged := logged s @ [(DEBUG, ''L_DataService.dataReq(): cEMI=%s'')],
                outQueue := PriorityQueue_add (outQueue s) ?t0 (priority cEMI)\<rparr>"
    and 3: "r = map_option result (List.find (\<lambda>t. \<not> waitConfirm t) (?t0 # wakeups))"
    using assms
    by (auto simp: dataReq_def Let_def Logger_def wait_confirm_find simp del: find.simps
        split: option.splits)
  from 3 have "(r = None) = (\<forall>t \<in> set (?t0 # wakeups). waitConfirm t)"
    by (auto simp add: find_None_iff simp del: find.simps)
  with 1 2 3 show ?thesis by simp
qed

theorem dataReq_effect_witness:
  "dataReq (\<lambda>c. c) awaiting example_service (frame_from 0x1102 MC_LDATA_REQ)
     [awaiting (frame_from 0x1101 MC_LDATA_REQ),
      (awaiting (frame_from 0x1101 MC_LDATA_REQ))\<lparr>waitConfirm := False, result := ''TIMEOUT''\<rparr>] =
   (Some ''TIMEOUT'',
    example_service\<lparr>logged := [(DEBUG, ''L_DataService.dataReq(): cEMI=%s'')],
      outQueue := (\<lambda>p. [])(Low := [awaiting (frame_from 0x1101 MC_LDATA_REQ)])\<rparr>,
    frame_from 0x1101 MC_LDATA_REQ)"
proof -
  obtain r s' c' where h:
    "dataReq (\<lambda>c. c) awaiting example_service (frame_from 0x1102 MC_LDATA_REQ)
       [awaiting (frame_from 0x1101 MC_LDATA_REQ),
        (awaiting (frame_from 0x1101 MC_LDATA_REQ))\<lparr>waitConfirm := False, result := ''TIMEOUT''\<rparr>] =
     (r, s', c')"
    by (rule prod_cases3)
  from dataReq_effect [OF h] show ?thesis
    unfolding h
    by (simp add: frame_from_def example_service_def new_L_DataService_def awaiting_def
        PriorityQueue_add_def)
qed

section \<open>Notifier: registration and dispatch\<close>

lemma execute_result:
  "execute call m ev n =
     (None, n\<lparr>invoked := invoked n @ [(m, ev)],
              notifier_log := notifier_log n @
                (case call m ev of None \<Rightarrow> [] | Some e \<Rightarrow> [(EXCEPTION, ''Notifier._execute()'')])\<rparr>)"
  by (simp add: execute_def try_except_def invoke_def logger_def split: option.splits)

lemma load_global_thread: "load_global ''thread'' n = (Some (NameError ''thread''), n)"
  by (simp add: load_global_def notifier_globals_def)

lemma notify_job_result:
  "notify_job call dpn old new (m, c, t) n =
     (None,
      if old \<noteq> new \<and> c = ''change'' \<or> c = ''always'' then
        if t then
          n\<lparr>notifier_log := notifier_log n @
              [(DEBUG, ''Notifier.datapointNotify(): trigger method %s() of %s''),
               (EXCEPTION, ''Notifier.datapointNotify()'')]\<rparr>
        else
          n\<lparr>invoked := invoked n @
               [(m, \<lparr>name = ''datapoint'', dp = dpn, oldValue = old, newValue = new,
                     condition = c, thread = False\<rparr>)],
            notifier_log := notifier_log n @
              (DEBUG, ''Notifier.datapointNotify(): trigger method %s() of %s'') #
              (case call m \<lparr>name = ''datapoint'', dp = dpn, oldValue = old, newValue = new,
                     condition = c, thread = False\<rparr> of
                 None \<Rightarrow> [] | Some e \<Rightarrow> [(EXCEPTION, ''Notifier._execute()'')])\<rparr>
      else n)"
  by (simp add: notify_job_def try_except_def seq_def Let_def logger_def execute_result
      load_global_thread split: option.splits)

lemma for_each_notify_job:
  "fst (for_each js (notify_job call dpn old new) n) = None \<and>
   invoked (snd (for_each js (notify_job call dpn old new) n)) =
     invoked n @ handler_calls dpn old new js \<and>
   started_threads (snd (for_each js (notify_job call dpn old new) n)) = started_threads n \<and>
   datapointJobs (snd (for_each js (notify_job call dpn old new) n)) = datapointJobs n"
proof (induction js arbitrary: n)
  case Nil
  show ?case by simp
next
  case (Cons j js)
  obtain m c t where j: "j = (m, c, t)" by (cases j)
  show ?case
    unfolding j for_each.simps notify_job_result
    using Cons.IH by (simp split: option.splits)
qed

lemma datapointNotify_result:
  "fst (datapointNotify call obj dpn old new n) = None \<and>
   invoked (snd (datapointNotify call obj dpn old new n)) =
     invoked n @ handler_calls dpn old new (jobs_of n obj dpn) \<and>
   started_threads (snd (datapointNotify call obj dpn old new n)) = started_threads n \<and>
   datapointJobs (snd (datapointNotify call obj dpn old new n)) = datapointJobs n"
proof -
  let ?n1 = "n\<lparr>notifier_log := notifier_log n @
    [(DEBUG, ''Notifier.datapointNotify(): obj=%s, dp=%s, oldValue=%s, newValue=%s'')]\<rparr>"
  show ?thesis
    using for_each_notify_job [of _ call dpn old new ?n1]
    by (simp add: datapointNotify_def seq_def logger_def jobs_of_def split: option.splits)
qed


lemma handler_calls_member:
  "(m, c, False) \<in> set js \<Longrightarrow> old \<noteq> new \<and> c = ''change'' \<or> c = ''always'' \<Longrightarrow>
   (m, \<lparr>name = ''datapoint'', dp = dpn, oldValue = old, newValue = new,
         condition = c, thread = False\<rparr>) \<in> set (handler_calls dpn old new js)"
  by (induction js) auto

lemma handler_calls_inline:
  "(m, ev) \<in> set (handler_calls dpn old new js) \<Longrightarrow>
   \<exists>c. (m, c, False) \<in> set js \<and> (old \<noteq> new \<and> c = ''change'' \<or> c = ''always'') \<and>
       ev = \<lparr>name = ''datapoint'', dp = dpn, oldValue = old, newValue = new,
         condition = c, thread = False\<rparr>"
  by (induction js) (auto split: if_splits)

text \<open>
  For handlers that are not marked \<open>thread\<close>, the dispatch follows the condition: the
  handler is called exactly when the values differ under \<open>change\<close>, or under
  \<open>always\<close>; two notifications with equal values call a \<open>change\<close> handler not at
  all and an \<open>always\<close> handler twice.
\<close>

lemma inline_handler_invoked_iff_condition:
  assumes "jobs_of n obj dpn = [(m, c, False)]"
  shows "invoked (snd (datapointNotify call obj dpn old new n)) =
     invoked n @
     (if old \<noteq> new \<and> c = ''change'' \<or> c = ''always''
      then [(m, \<lparr>name = ''datapoint'', dp = dpn, oldValue = old, newValue = new,
                 condition = c, thread = False\<rparr>)]
      else [])"
  using datapointNotify_result [of call obj dpn old new n] assms by simp

lemma equal_values_notified_twice:
  assumes "jobs_of n obj dpn = [(m, c, False)]" and "c = ''change'' \<or> c = ''always''"
  shows "invoked (snd (datapointNotify call obj dpn v v
            (snd (datapointNotify call obj dpn v v n)))) =
     invoked n @
     (if c = ''always''
      then [(m, \<lparr>name = ''datapoint'', dp = dpn, oldValue = v, newValue = v,
                 condition = c, thread = False\<rparr>),
            (m, \<lparr>name = ''datapoint'', dp = dpn, oldValue = v, newValue = v,
                 condition = c, thread = False\<rparr>)]
      else [])"
proof -
  let ?n1 = "snd (datapointNotify call obj dpn v v n)"
  have "datapointJobs ?n1 = datapointJobs n"
    using datapointNotify_result [of call obj dpn v v n] by simp
  then have j: "jobs_of ?n1 obj dpn = [(m, c, False)]"
    using assms(1) by (simp add: jobs_of_def)
  show ?thesis
    using inline_handler_invoked_iff_condition [OF j, of call v v]
      inline_handler_invoked_iff_condition [OF assms(1), of call v v] assms(2)
    by auto
qed

text \<open>
  C4. An exception raised by a handler is caught and logged by \<open>_execute\<close>, which
  itself raises nothing, and \<open>datapointNotify\<close> never raises, whatever the handlers
  do. The handler calls made by a notification are the same whether handlers raise or
  not: a registered inline handler whose condition holds is called even when a handler
  before it raised.
\<close>

theorem handler_exceptions_isolated:
  "fst (datapointNotify call obj dpn old new n) = None \<and>
   invoked (snd (datapointNotify call obj dpn old new n)) =
     invoked (snd (datapointNotify (\<lambda>m ev. None) obj dpn old new n)) \<and>
   execute call m ev n =
     (None, n\<lparr>invoked := invoked n @ [(m, ev)],
              notifier_log := notifier_log n @
                (case call m ev of None \<Rightarrow> [] | Some e \<Rightarrow> [(EXCEPTION, ''Notifier._execute()'')])\<rparr>) \<and>
   ((m, c, False) \<in> set (jobs_of n obj dpn) \<and> (old \<noteq> new \<and> c = ''change'' \<or> c = ''always'') \<longrightarrow>
      (m, \<lparr>name = ''datapoint'', dp = dpn, oldValue = old, newValue = new,
            condition = c, thread = False\<rparr>)
        \<in> set (invoked (snd (datapointNotify call obj dpn old new n))))"
  using datapointNotify_result [of call obj dpn old new n]
    datapointNotify_result [of "\<lambda>m ev. None" obj dpn old new n]
    handler_calls_member [of m c "jobs_of n obj dpn" old new dpn]
  by (simp add: execute_result)

lemma registered_pair_jobs:
  "datapointJobs registered_pair =
     [2 \<mapsto> [''temp'' \<mapsto> [((2, 11), ''always'', False), ((2, 12), ''always'', False)]]]"
  by (simp add: registered_pair_def doRegisterJobs_def addDatapointJob_def new_Notifier_def
      seq_def logger_def register_pending_def example_objects_def store_job_def
      except_KeyError_def append_job_def set_jobs_def set_obj_jobs_def Let_def)

lemma registered_jobs:
  "obj < 10 \<Longrightarrow> cond \<in> {''change'', ''always''} \<Longrightarrow>
   datapointJobs (registered obj 11 cond thr) = [obj \<mapsto> [''temp'' \<mapsto> [((obj, 11), cond, thr)]]]"
  by (auto simp add: registered_def doRegisterJobs_def addDatapointJob_def new_Notifier_def
      seq_def logger_def register_pending_def example_objects_def store_job_def
      except_KeyError_def append_job_def set_jobs_def set_obj_jobs_def Let_def)

theorem handler_exceptions_isolated_witness:
  "jobs_of registered_pair 2 ''temp'' =
     [((2, 11), ''always'', False), ((2, 12), ''always'', False)] \<and>
   first_raises (2, 11) \<lparr>name = ''datapoint'', dp = ''temp'', oldValue = 5, newValue = 5,
       condition = ''always'', thread = False\<rparr> = Some (UserError ''boom'') \<and>
   fst (datapointNotify first_raises 2 ''temp'' 5 5 registered_pair) = None \<and>
   invoked (snd (datapointNotify first_raises 2 ''temp'' 5 5 registered_pair)) =
     [((2, 11), \<lparr>name = ''datapoint'', dp = ''temp'', oldValue = 5, newValue = 5,
         condition = ''always'', thread = False\<rparr>),
      ((2, 12), \<lparr>name = ''datapoint'', dp = ''temp'', oldValue = 5, newValue = 5,
         condition = ''always'', thread = False\<rparr>)]"
proof -
  have j: "jobs_of registered_pair 2 ''temp'' =
      [((2, 11), ''always'', False), ((2, 12), ''always'', False)]"
    by (simp add: jobs_of_def registered_pair_jobs)
  have i: "invoked registered_pair = []"
    by (simp add: registered_pair_def doRegisterJobs_def addDatapointJob_def new_Notifier_def
      seq_def logger_def register_pending_def example_objects_def store_job_def
      except_KeyError_def append_job_def set_jobs_def set_obj_jobs_def Let_def)
  have r: "first_raises (2, 11) \<lparr>name = ''datapoint'', dp = ''temp'', oldValue = 5, newValue = 5,
            condition = ''always'', thread = False\<rparr> = Some (UserError ''boom'')"
    by (simp add: first_raises_def)
  have c: "invoked (snd (datapointNotify first_raises 2 ''temp'' 5 5 registered_pair)) =
     [((2, 11), \<lparr>name = ''datapoint'', dp = ''temp'', oldValue = 5, newValue = 5,
         condition = ''always'', thread = False\<rparr>),
      ((2, 12), \<lparr>name = ''datapoint'', dp = ''temp'', oldValue = 5, newValue = 5,
         condition = ''always'', thread = False\<rparr>)]"
    using datapointNotify_result [of first_raises 2 "''temp''" 5 5 registered_pair]
    by (simp add: j i)
  from handler_exceptions_isolated [of first_raises 2 "''temp''" 5 5 registered_pair "(2, 12)"
      "\<lparr>name = ''datapoint'', dp = ''temp'', oldValue = 5, newValue = 5,
            condition = ''always'', thread = False\<rparr>" "''always''"]
  have "fst (datapointNotify first_raises 2 ''temp'' 5 5 registered_pair) = None"
    by blast
  with j r c show ?thesis by blast
qed

text \<open>
  C3 (the code at a failing input). A handler registered with condition \<open>always\<close>
  and \<open>thread=True\<close> matches the notification of \<open>temp\<close> changing from 20 to 21, and
  is not invoked: looking up the name \<open>thread\<close>, which the module never imports,
  raises \<open>NameError\<close> before the handler is reached. The notification only adds its
  two debug lines and the line of the caught exception to the log: no handler is
  called and no thread is started. Registered with \<open>thread=False\<close>, the same handler
  is called with the event.
\<close>

theorem thread_always_handler_never_invoked:
  "jobs_of (registered 2 11 ''always'' True) 2 ''temp'' = [((2, 11), ''always'', True)] \<and>
   datapointNotify all_return 2 ''temp'' 20 21 (registered 2 11 ''always'' True) =
     (None, (registered 2 11 ''always'' True)
        \<lparr>notifier_log := notifier_log (registered 2 11 ''always'' True) @
           [(DEBUG, ''Notifier.datapointNotify(): obj=%s, dp=%s, oldValue=%s, newValue=%s''),
            (DEBUG, ''Notifier.datapointNotify(): trigger method %s() of %s''),
            (EXCEPTION, ''Notifier.datapointNotify()'')]\<rparr>) \<and>
   invoked (registered 2 11 ''always'' True) = [] \<and>
   started_threads (registered 2 11 ''always'' True) = [] \<and>
   invoked (snd (datapointNotify all_return 2 ''temp'' 20 21 (registered 2 11 ''always'' False))) =
     [((2, 11), \<lparr>name = ''datapoint'', dp = ''temp'', oldValue = 20, newValue = 21,
         condition = ''always'', thread = False\<rparr>)]"
proof -
  have inv: "invoked (registered 2 11 ''always'' t) = []"
    "started_threads (registered 2 11 ''always'' t) = []" for t
    by (simp_all add: registered_def doRegisterJobs_def addDatapointJob_def new_Notifier_def
      seq_def logger_def register_pending_def example_objects_def store_job_def
      except_KeyError_def append_job_def set_jobs_def set_obj_jobs_def Let_def)
  have 1: "jobs_of (registered 2 11 ''always'' t) 2 ''temp'' = [((2, 11), ''always'', t)]" for t
    by (simp add: jobs_of_def registered_jobs)
  have 2: "datapointNotify all_return 2 ''temp'' 20 21 (registered 2 11 ''always'' True) =
     (None, (registered 2 11 ''always'' True)
        \<lparr>notifier_log := notifier_log (registered 2 11 ''always'' True) @
           [(DEBUG, ''Notifier.datapointNotify(): obj=%s, dp=%s, oldValue=%s, newValue=%s''),
            (DEBUG, ''Notifier.datapointNotify(): trigger method %s() of %s''),
            (EXCEPTION, ''Notifier.datapointNotify()'')]\<rparr>)"
    by (simp add: datapointNotify_def seq_def logger_def registered_jobs notify_job_result)
  have 3: "invoked (snd (datapointNotify all_return 2 ''temp'' 20 21
        (registered 2 11 ''always'' False))) =
     [((2, 11), \<lparr>name = ''datapoint'', dp = ''temp'', oldValue = 20, newValue = 21,
         condition = ''always'', thread = False\<rparr>)]"
    using datapointNotify_result [of all_return 2 "''temp''" 20 21 "registered 2 11 ''always'' False"]
    by (simp add: 1 inv)
  from 1 [of True] 2 3 inv [of True] show ?thesis by simp
qed

text \<open>
  C6 (the code at a failing input). For a handler registered with condition \<open>change\<close>
  and \<open>thread=True\<close>, a notification with different old and new values ends with the
  exception of the failed lookup of \<open>thread\<close> logged, no handler call and no thread
  started; the same handler registered with \<open>thread=False\<close> is invoked with the event.
\<close>

theorem thread_handler_call_fails:
  "jobs_of (registered 2 11 ''change'' True) 2 ''temp'' = [((2, 11), ''change'', True)] \<and>
   datapointNotify all_return 2 ''temp'' 20 21 (registered 2 11 ''change'' True) =
     (None, (registered 2 11 ''change'' True)
        \<lparr>notifier_log := notifier_log (registered 2 11 ''change'' True) @
           [(DEBUG, ''Notifier.datapointNotify(): obj=%s, dp=%s, oldValue=%s, newValue=%s''),
            (DEBUG, ''Notifier.datapointNotify(): trigger method %s() of %s''),
            (EXCEPTION, ''Notifier.datapointNotify()'')]\<rparr>) \<and>
   invoked (registered 2 11 ''change'' True) = [] \<and>
   started_threads (registered 2 11 ''change'' True) = [] \<and>
   invoked (snd (datapointNotify all_return 2 ''temp'' 20 21 (registered 2 11 ''change'' False))) =
     [((2, 11), \<lparr>name = ''datapoint'', dp = ''temp'', oldValue = 20, newValue = 21,
         condition = ''change'', thread = False\<rparr>)]"
proof -
  have inv: "invoked (registered 2 11 ''change'' t) = []"
    "started_threads (registered 2 11 ''change'' t) = []" for t
    by (simp_all add: registered_def doRegisterJobs_def addDatapointJob_def new_Notifier_def
      seq_def logger_def register_pending_def example_objects_def store_job_def
      except_KeyError_def append_job_def set_jobs_def set_obj_jobs_def Let_def)
  have 1: "jobs_of (registered 2 11 ''change'' t) 2 ''temp'' = [((2, 11), ''change'', t)]" for t
    by (simp add: jobs_of_def registered_jobs)
  have 2: "datapointNotify all_return 2 ''temp'' 20 21 (registered 2 11 ''change'' True) =
     (None, (registered 2 11 ''change'' True)
        \<lparr>notifier_log := notifier_log (registered 2 11 ''change'' True) @
           [(DEBUG, ''Notifier.datapointNotify(): obj=%s, dp=%s, oldValue=%s, newValue=%s''),
            (DEBUG, ''Notifier.datapointNotify(): trigger method %s() of %s''),
            (EXCEPTION, ''Notifier.datapointNotify()'')]\<rparr>)"
    by (simp add: datapointNotify_def seq_def logger_def registered_jobs notify_job_result)
  have 3: "invoked (snd (datapointNotify all_return 2 ''temp'' 20 21
        (registered 2 11 ''change'' False))) =
     [((2, 11), \<lparr>name = ''datapoint'', dp = ''temp'', oldValue = 20, newValue = 21,
         condition = ''change'', thread = False\<rparr>)]"
    using datapointNotify_result [of all_return 2 "''temp''" 20 21 "registered 2 11 ''change'' False"]
    by (simp add: 1 inv)
  from 1 [of True] 2 3 inv [of True] show ?thesis by simp
qed

lemma store_job_result:
  "store_job obj dpn job n =
     (None, n\<lparr>datapointJobs := (datapointJobs n)(obj \<mapsto>
        (case datapointJobs n obj of None \<Rightarrow> Map.empty | Some d \<Rightarrow> d)
          (dpn \<mapsto> jobs_of n obj dpn @ [job]))\<rparr>)"
  by (simp add: store_job_def except_KeyError_def append_job_def set_jobs_def set_obj_jobs_def
      jobs_of_def split: option.splits)

lemma store_job_jobs_of:
  "jobs_of (snd (store_job obj dpn job n)) ob d =
     (if ob = obj \<and> d = dpn then jobs_of n obj dpn @ [job] else jobs_of n ob d)"
  by (simp add: store_job_result jobs_of_def split: option.splits)

lemma jobs_of_log: "jobs_of (n\<lparr>notifier_log := l\<rparr>) ob d = jobs_of n ob d"
  by (simp add: jobs_of_def)

lemma register_pending_jobs:
  assumes "(m, c, t) \<in> set (jobs_of (snd (register_pending objs obj (ty, f, args) n)) ob dpn)"
  shows "(m, c, t) \<in> set (jobs_of n ob dpn) \<or>
         (ob = obj \<and> ty = ''datapoint'' \<and> args = (dpn, c, t) \<and>
          getattr objs obj (func_name objs f) = Some m \<and> meth_func objs m = Inr f)"
  using assms
  by (auto simp: register_pending_def seq_def logger_def store_job_jobs_of jobs_of_log
      split: option.splits sum.splits if_splits prod.splits)

lemma for_each_register_pending:
  assumes "(m, c, t) \<in> set (jobs_of (snd (for_each es (register_pending objs obj) n)) ob dpn)"
  shows "(m, c, t) \<in> set (jobs_of n ob dpn) \<or>
         (ob = obj \<and> (\<exists>f. (''datapoint'', f, (dpn, c, t)) \<in> set es \<and>
            getattr objs obj (func_name objs f) = Some m \<and> meth_func objs m = Inr f))"
  using assms
proof (induction es arbitrary: n)
  case Nil
  then show ?case by simp
next
  case (Cons e es)
  obtain ty f args where e: "e = (ty, f, args)" by (cases e)
  obtain r n' where step: "register_pending objs obj (ty, f, args) n = (r, n')"
    by (cases "register_pending objs obj (ty, f, args) n")
  show ?case
  proof (cases r)
    case None
    with Cons.prems e step
    have "(m, c, t) \<in> set (jobs_of (snd (for_each es (register_pending objs obj) n')) ob dpn)"
      by simp
    from Cons.IH [OF this] register_pending_jobs [of m c t objs obj ty f args n ob dpn] step e
    show ?thesis by auto
  next
    case (Some x)
    with Cons.prems e step have "(m, c, t) \<in> set (jobs_of n' ob dpn)" by simp
    with register_pending_jobs [of m c t objs obj ty f args n ob dpn] step e
    show ?thesis by auto
  qed
qed

text \<open>
  C10. Every job found in the handler table after \<open>doRegisterJobs(obj)\<close> was either
  there before, or belongs to \<open>obj\<close> and comes from a pending datapoint registration
  whose function names an attribute of \<open>obj\<close>, the job's method being that attribute
  and its underlying function the registered function itself. So a method of another
  class that only shares the name is never registered.
\<close>

theorem doRegisterJobs_binds_only_decorated:
  assumes "(m, c, t) \<in> set (jobs_of (snd (doRegisterJobs objs obj n)) ob dpn)"
  shows "(m, c, t) \<in> set (jobs_of n ob dpn) \<or>
         (ob = obj \<and> (\<exists>f. (''datapoint'', f, (dpn, c, t)) \<in> set (pendingFuncs n) \<and>
            getattr objs obj (func_name objs f) = Some m \<and> meth_func objs m = Inr f))"
proof -
  let ?n1 = "n\<lparr>notifier_log := notifier_log n @
      [(DEBUG, ''Notifier.doRegisterJobs(): obj=%s'')]\<rparr>"
  from assms have "(m, c, t) \<in> set (jobs_of
      (snd (for_each (pendingFuncs n) (register_pending objs obj) ?n1)) ob dpn)"
    by (simp add: doRegisterJobs_def seq_def logger_def)
  from for_each_register_pending [OF this] show ?thesis by (simp add: jobs_of_log)
qed

theorem doRegisterJobs_binds_only_decorated_witness:
  "((2, 11), ''change'', False) \<in> set (jobs_of (registered 2 11 ''change'' False) 2 ''temp'') \<and>
   getattr example_objects 2 (func_name example_objects 11) = Some (2, 11) \<and>
   meth_func example_objects (2, 11) = Inr 11 \<and>
   getattr example_objects 20 (func_name example_objects 11) = Some (20, 13) \<and>
   jobs_of (registered 20 11 ''change'' False) 20 ''temp'' = []"
proof -
  have h: "((2, 11), ''change'', False) \<in> set (jobs_of (snd (doRegisterJobs example_objects 2
      (snd (addDatapointJob 11 ''temp'' (Some ''change'') (Some False)
         (new_Notifier :: (nat, nat, nat \<times> nat, int) Notifier))))) 2 ''temp'')"
    using registered_jobs [of 2 "''change''" False] by (simp add: jobs_of_def registered_def)
  have b: "jobs_of (registered 20 11 ''change'' False) 20 ''temp'' = []"
    by (simp add: jobs_of_def registered_def doRegisterJobs_def addDatapointJob_def
      new_Notifier_def seq_def logger_def register_pending_def example_objects_def Let_def)
  from doRegisterJobs_binds_only_decorated [OF h] h b show ?thesis
    by (simp add: registered_def example_objects_def)
qed

end
